theory Spec2Isabelle
  imports Main "HOL-Library.AList" "HOL-Library.Option_ord" "HOL-Library.Product_Lexorder"
    "HOL-Library.Multiset"
begin

section \<open>Entities, options and errors (types/core.ts)\<close>

text \<open>
  An entity is a JavaScript object with the optional lifecycle fields of the interface
  \<open>Entity\<close> (plus \<open>_id\<close> of \<open>EntityWithAdditionalId\<close>) and whatever further attributes the
  concrete type \<open>T\<close> has (\<open>name\<close>, \<open>email\<close>, ...). An absent field and a field holding
  \<open>undefined\<close> are both \<open>None\<close>. Numbers are the integers the code uses them for
  (versions, millisecond timestamps). The field \<open>id\<close> is named \<open>id'\<close> and \<open>_id\<close> is named
  \<open>oid\<close>, since \<open>id\<close> is the identity function of HOL and a name cannot start with an
  underscore.
\<close>

datatype jsval = JStr string | JNum int | JBool bool

record entity =
  id' :: "string option"
  oid :: "string option"
  deleted :: "bool option"
  dateCreated :: "int option"
  dateUpdated :: "int option"
  dateDeleted :: "int option"
  version :: "int option"
  attrs :: "(string \<times> jsval) list"

text \<open>\<open>item[key]\<close>: the value of a property, \<open>None\<close> when the object has no such key.\<close>

definition field :: "entity \<Rightarrow> string \<Rightarrow> jsval option" where
  "field e k =
    (if k = ''id'' then map_option JStr (id' e)
     else if k = ''_id'' then map_option JStr (oid e)
     else if k = ''deleted'' then map_option JBool (deleted e)
     else if k = ''dateCreated'' then map_option JNum (dateCreated e)
     else if k = ''dateUpdated'' then map_option JNum (dateUpdated e)
     else if k = ''dateDeleted'' then map_option JNum (dateDeleted e)
     else if k = ''version'' then map_option JNum (version e)
     else map_of (attrs e) k)"

text \<open>
  The object spread \<open>{ ...record, ...payload }\<close>: every property the payload has wins,
  the others are the record's.
\<close>

definition orElse :: "'a option \<Rightarrow> 'a option \<Rightarrow> 'a option" where
  "orElse a b = (case a of Some x \<Rightarrow> Some x | None \<Rightarrow> b)"

definition spread :: "entity \<Rightarrow> entity \<Rightarrow> entity" where
  "spread record payload =
    \<lparr> id' = orElse (id' payload) (id' record),
      oid = orElse (oid payload) (oid record),
      deleted = orElse (deleted payload) (deleted record),
      dateCreated = orElse (dateCreated payload) (dateCreated record),
      dateUpdated = orElse (dateUpdated payload) (dateUpdated record),
      dateDeleted = orElse (dateDeleted payload) (dateDeleted record),
      version = orElse (version payload) (version record),
      attrs = fold (\<lambda>(k, v). AList.update k v) (attrs payload) (attrs record) \<rparr>"

text \<open>
  A filter is a \<open>Partial<T>\<close> that the adapters only enumerate (\<open>Object.keys\<close>,
  \<open>Object.entries\<close>, \<open>for ... in\<close>): it is the list of its properties in their
  enumeration order.
\<close>

type_synonym filter = "(string \<times> jsval) list"

datatype LogicalOperator = AND | OR | NOR

datatype Locking = pessimistic | optimistic

record RemovalOptions =
  softDelete :: "bool option"

text \<open>
  \<open>QueryOptions\<close>. The fields \<open>offset\<close> (read nowhere), \<open>sortBy\<close> (read only by the
  Firestore adapter's \<open>orderAndLimit\<close>) and \<open>mongoOptions\<close> (the session handed through to
  the driver) are not part of the model; every call below is one that leaves them unset.
\<close>

record QueryOptions =
  logicalOperator :: "LogicalOperator option"
  deletionOptions :: "RemovalOptions option"
  limit :: "nat option"
  locking :: "Locking option"

datatype error =
    InvalidRequestException
  | DuplicateRecordException
  | RecordNotFoundException
  | OptimisticLockException
  | InternalServerException
  | SyntaxError
  | DriverError

section \<open>The runtime the code reads: clock, id generator, JSON parser\<close>

text \<open>
  \<open>Date.now()\<close> and \<open>commonUtils.generate()\<close> (and Firestore's automatic document id)
  return a new value on every call. The world fixes what the \<open>n\<close>-th call returns and
  counts the calls made so far. \<open>JSON_parses s\<close> says whether \<open>JSON.parse\<close> accepts the
  text \<open>s\<close> (it throws a \<open>SyntaxError\<close> otherwise).
\<close>

record world =
  clock :: "nat \<Rightarrow> int"
  ticks :: nat
  idgen :: "nat \<Rightarrow> string"
  drawn :: nat
  JSON_parses :: "string \<Rightarrow> bool"

definition Date_now :: "'a world_scheme \<Rightarrow> int \<times> 'a world_scheme" where
  "Date_now w = (clock w (ticks w), w\<lparr>ticks := Suc (ticks w)\<rparr>)"

definition generate :: "'a world_scheme \<Rightarrow> string \<times> 'a world_scheme" where
  "generate w = (idgen w (drawn w), w\<lparr>drawn := Suc (drawn w)\<rparr>)"

section \<open>common-utils.ts\<close>

text \<open>
  \<open>isEmpty\<close> at the two kinds of argument the adapters pass. At a number or
  \<open>undefined\<close> (\<open>payload.dateCreated\<close>): empty when undefined or \<open>0\<close>. At a string or
  \<open>undefined\<close> (\<open>payload.id\<close>): a string without braces is empty when \<open>trim()\<close> leaves
  nothing; a string with a brace goes through \<open>JSON.parse\<close>, which throws on a text that
  is not JSON, and the result is \<open>false\<close> otherwise (a parsed non-empty value has keys;
  after a parsed \<open>{}\<close> the test is \<open>Object.keys(arg).length === 0\<close> on the non-empty
  string itself). \<open>trim\<close> removes the ASCII white space characters.
\<close>

definition isEmpty_number :: "int option \<Rightarrow> bool" where
  "isEmpty_number arg = (case arg of None \<Rightarrow> True | Some n \<Rightarrow> n = 0)"

definition white_space :: "char list" where
  "white_space = [CHR '' '', CHR 0x09, CHR 0x0A, CHR 0x0B, CHR 0x0C, CHR 0x0D]"

definition trim :: "string \<Rightarrow> string" where
  "trim s = rev (dropWhile (\<lambda>c. c \<in> set white_space) (rev (dropWhile (\<lambda>c. c \<in> set white_space) s)))"

definition isEmpty_string :: "'a world_scheme \<Rightarrow> string option \<Rightarrow> error + bool" where
  "isEmpty_string w arg =
    (case arg of
       None \<Rightarrow> Inr True
     | Some s \<Rightarrow>
         if CHR ''{'' \<notin> set s \<and> CHR ''}'' \<notin> set s then Inr (length (trim s) = 0)
         else if JSON_parses w s then Inr False
         else Inl SyntaxError)"

text \<open>\<open>isAnyEmpty(x)\<close> with the single argument of \<open>updatePayload\<close>.\<close>

definition isAnyEmpty :: "int option \<Rightarrow> bool" where
  "isAnyEmpty arg = isEmpty_number arg"

section \<open>entity-utils.ts\<close>

definition getNextVersion :: "int option \<Rightarrow> int" where
  "getNextVersion v = (case v of None \<Rightarrow> 1 | Some n \<Rightarrow> n + 1)"

text \<open>
  \<open>updatePayload\<close> mutates its argument; the model returns the stamped payload. It
  reads the clock once for \<open>dateCreated\<close> (only when that is empty) and once more for
  \<open>dateUpdated\<close>.
\<close>

definition updatePayload :: "entity \<Rightarrow> 'a world_scheme \<Rightarrow> entity \<times> 'a world_scheme" where
  "updatePayload payload w =
    (let p1 = payload\<lparr>version := Some (getNextVersion (version payload))\<rparr>;
         (p2, w1) = (if isAnyEmpty (dateCreated p1)
                     then (case Date_now w of (t, w') \<Rightarrow> (p1\<lparr>dateCreated := Some t\<rparr>, w'))
                     else (p1, w));
         (t2, w2) = Date_now w1;
         p3 = p2\<lparr>dateUpdated := Some t2\<rparr>
     in (p3\<lparr>deleted := Some (case deleted p3 of None \<Rightarrow> False | Some b \<Rightarrow> b)\<rparr>, w2))"

definition markAsDeleted :: "entity \<Rightarrow> 'a world_scheme \<Rightarrow> entity \<times> 'a world_scheme" where
  "markAsDeleted payload w =
    (case Date_now w of (t, w') \<Rightarrow> (payload\<lparr>deleted := Some True, dateDeleted := Some t\<rparr>, w'))"






text \<open>
  \<open>payload.filter((entity) => !commonUtils.isEmpty(entity.id))\<close>, the first step of every
  \<open>createAll\<close>: it stops at the first id on which \<open>isEmpty\<close> throws.
\<close>

fun entitiesWithIds :: "'a world_scheme \<Rightarrow> entity list \<Rightarrow> error + entity list" where
  "entitiesWithIds w [] = Inr []"
| "entitiesWithIds w (e # es) =
    (case isEmpty_string w (id' e) of
       Inl err \<Rightarrow> Inl err
     | Inr none \<Rightarrow>
         (case entitiesWithIds w es of
            Inl err \<Rightarrow> Inl err
          | Inr rest \<Rightarrow> Inr (if none then rest else e # rest)))"

section \<open>LocalStorageCrudRepository.ts\<close>

text \<open>
  The adapter keeps one JSON text per collection under \<open>storageKey\<close>. \<open>storage\<close> is what
  \<open>getItem(storageKey)\<close> gives: \<open>None\<close> for \<open>null\<close> or the empty string, otherwise the
  object that \<open>JSON.parse\<close> returns, as the list of its properties in insertion order
  (\<open>JSON.stringify\<close> followed by \<open>JSON.parse\<close> gives the same object back; the record
  keys end in \<open>:false\<close> or \<open>:true\<close>, so none is an integer index that JavaScript would
  move to the front). \<open>object[key] = v\<close> is \<open>AList.update\<close> and \<open>delete object[key]\<close>
  is \<open>AList.delete\<close>. Logging is left out.
\<close>

record local = world +
  storage :: "(string \<times> entity) list option"

text \<open>A template literal prints an undefined id as the text \<open>undefined\<close>.\<close>

definition template :: "string option \<Rightarrow> string" where
  "template x = (case x of None \<Rightarrow> ''undefined'' | Some s \<Rightarrow> s)"

definition getActiveKey :: "string \<Rightarrow> string" where
  "getActiveKey i = i @ '':false''"

definition getInactiveKey :: "string \<Rightarrow> string" where
  "getInactiveKey i = i @ '':true''"


definition ls_findById :: "string \<Rightarrow> 'a local_scheme \<Rightarrow> entity option" where
  "ls_findById i s =
    (case storage s of
       None \<Rightarrow> None
     | Some jsonValue \<Rightarrow> map_of jsonValue (getActiveKey i))"

text \<open>
  \<open>findAll(filter = {}, queryOptions)\<close>: the outer loop runs over the keys of the
  filter, the inner one over the stored records; the query options are not read.
\<close>

definition ls_findAll :: "filter option \<Rightarrow> QueryOptions option \<Rightarrow> 'a local_scheme \<Rightarrow> entity list" where
  "ls_findAll flt queryOptions s =
    (case storage s of
       None \<Rightarrow> []
     | Some jsonValue \<Rightarrow>
         concat (map (\<lambda>(key, value).
                   [item \<leftarrow> map snd jsonValue. deleted item \<noteq> Some True \<and> field item key = Some value])
                 (case flt of None \<Rightarrow> [] | Some f \<Rightarrow> f)))"






text \<open>
  \<open>findExpectedRecord\<close> returns the parsed object; the caller reads the record back from
  it under the same key, so the model returns both.
\<close>

definition ls_findExpectedRecord ::
  "string \<Rightarrow> 'a local_scheme \<Rightarrow> error + (string \<times> entity) list \<times> entity" where
  "ls_findExpectedRecord key s =
    (case storage s of
       None \<Rightarrow> Inl RecordNotFoundException
     | Some object \<Rightarrow>
         (case map_of object key of
            None \<Rightarrow> Inl RecordNotFoundException
          | Some record \<Rightarrow> Inr (object, record)))"

definition ls_performUpdate ::
  "entity \<Rightarrow> (string \<times> entity) list \<Rightarrow> 'a local_scheme \<Rightarrow> (error + bool) \<times> 'a local_scheme" where
  "ls_performUpdate payload object s =
    (case updatePayload payload s of
       (stamped, s1) \<Rightarrow>
         (Inr True,
          s1\<lparr>storage := Some (AList.update (getActiveKey (template (id' stamped))) stamped object)\<rparr>))"

definition ls_update ::
  "string \<Rightarrow> entity \<Rightarrow> QueryOptions option \<Rightarrow> 'a local_scheme \<Rightarrow> (error + bool) \<times> 'a local_scheme" where
  "ls_update i payload queryOptions s =
    (case ls_findExpectedRecord (getActiveKey i) s of
       Inl err \<Rightarrow> (Inl err, s)
     | Inr (object, record) \<Rightarrow>
         if (case queryOptions of None \<Rightarrow> False | Some q \<Rightarrow> locking q = Some optimistic)
            \<and> version record \<noteq> version payload
         then (Inl OptimisticLockException, s)
         else ls_performUpdate (spread record payload) object s)"






section \<open>The document database behind MongoCrudRepository.ts\<close>

text \<open>
  The mongoose driver and the server are not part of the repository. They are modelled by
  their documented contract, on a collection that is the list of its documents:
  \<^item> a filter document is a conjunction of field conditions, or \<open>$and\<close>, \<open>$or\<close>, \<open>$nor\<close>
    over a list of filters; the server rejects an empty list under these operators;
  \<open>{$ne: v}\<close> holds of a missing field, \<open>{$eq: v, $exists: true}\<close> does not;
  \<^item> \<open>find\<close> returns the matching documents, \<open>findOne\<close> the first of them, \<open>sort\<close>
    orders them (a missing field sorts below every value, \<open>false\<close> below \<open>true\<close>);
  \<^item> \<open>_id\<close> is unique: a \<open>save\<close> or \<open>insertMany\<close> of a document whose \<open>_id\<close> is taken
    fails, and an update that would change \<open>_id\<close> fails;
  \<^item> \<open>doc.updateOne(update)\<close> sets the fields of \<open>update\<close> on the document with the
    \<open>_id\<close> of \<open>doc\<close>; \<open>deleteOne\<close> removes the first matching document.
  The connection is taken to be established, the schema to accept the documents
  (\<open>strict: false\<close>), and \<open>getDocument\<close> to unwrap a driver document to its plain
  object. Sessions are handed through to the driver and are not modelled here.
\<close>

datatype condition = Ne jsval | EqExists jsval

datatype query = Fields "(string \<times> condition) list" | Op LogicalOperator "query list"

fun holds :: "condition \<Rightarrow> jsval option \<Rightarrow> bool" where
  "holds (Ne v) x = (x \<noteq> Some v)"
| "holds (EqExists v) x = (x = Some v)"

fun matches :: "query \<Rightarrow> entity \<Rightarrow> bool" where
  "matches (Fields cs) d = list_all (\<lambda>(k, c). holds c (field d k)) cs"
| "matches (Op AND qs) d = list_all (\<lambda>q. matches q d) qs"
| "matches (Op OR qs) d = list_ex (\<lambda>q. matches q d) qs"
| "matches (Op NOR qs) d = (\<not> list_ex (\<lambda>q. matches q d) qs)"

fun accepted :: "query \<Rightarrow> bool" where
  "accepted (Fields cs) = True"
| "accepted (Op lo qs) = (qs \<noteq> [] \<and> list_all accepted qs)"

definition db_find :: "query \<Rightarrow> entity list \<Rightarrow> error + entity list" where
  "db_find q docs = (if accepted q then Inr [d \<leftarrow> docs. matches q d] else Inl DriverError)"

definition db_findOne :: "query \<Rightarrow> entity list \<Rightarrow> error + entity option" where
  "db_findOne q docs = (if accepted q then Inr (find (matches q) docs) else Inl DriverError)"

text \<open>Descending order by a key, keeping the order of input among equal keys.\<close>

definition sort_desc :: "('a \<Rightarrow> 'k::linorder) \<Rightarrow> 'a list \<Rightarrow> 'a list" where
  "sort_desc key xs = rev (sort_key key (rev xs))"

definition db_save :: "entity \<Rightarrow> entity list \<Rightarrow> error + entity list" where
  "db_save d docs = (if oid d \<in> set (map oid docs) then Inl DriverError else Inr (docs @ [d]))"

fun db_insertMany :: "entity list \<Rightarrow> entity list \<Rightarrow> (error + entity list) \<times> entity list" where
  "db_insertMany [] docs = (Inr [], docs)"
| "db_insertMany (d # ds) docs =
    (case db_save d docs of
       Inl err \<Rightarrow> (Inl err, docs)
     | Inr docs1 \<Rightarrow>
         (case db_insertMany ds docs1 of
            (Inl err, docs2) \<Rightarrow> (Inl err, docs2)
          | (Inr rest, docs2) \<Rightarrow> (Inr (d # rest), docs2)))"

fun db_updateOne :: "string option \<Rightarrow> entity \<Rightarrow> entity list \<Rightarrow> error + entity list" where
  "db_updateOne key update [] = Inr []"
| "db_updateOne key update (d # docs) =
    (if oid d = key
     then (if oid (spread d update) = oid d then Inr (spread d update # docs) else Inl DriverError)
     else (case db_updateOne key update docs of
             Inl err \<Rightarrow> Inl err
           | Inr docs' \<Rightarrow> Inr (d # docs')))"



section \<open>MongoCrudRepository.ts\<close>

record mongo = world +
  collection :: "entity list"


text \<open>
  \<open>createFilterOnly\<close> starts from \<open>{deleted: {$ne: true}}\<close> and spreads one condition per
  key of the filter into it, so a filter key \<open>deleted\<close> replaces the first condition.
\<close>

definition createFilterOnly :: "filter \<Rightarrow> query" where
  "createFilterOnly flt =
    Fields (fold (\<lambda>(key, value). AList.update key (EqExists value)) flt
              [(''deleted'', Ne (JBool True))])"

definition createFilter :: "filter \<Rightarrow> QueryOptions option \<Rightarrow> query" where
  "createFilter flt queryOptions =
    (case (case queryOptions of None \<Rightarrow> None | Some q \<Rightarrow> logicalOperator q) of
       None \<Rightarrow> createFilterOnly flt
     | Some AND \<Rightarrow> createFilterOnly flt
     | Some operator \<Rightarrow>
         Op AND [Fields [(''deleted'', Ne (JBool True))],
                 Op operator (map (\<lambda>(key, value). Fields [(key, EqExists value)]) flt)])"

definition mg_findById :: "string \<Rightarrow> QueryOptions option \<Rightarrow> 'a mongo_scheme \<Rightarrow> entity option" where
  "mg_findById i queryOptions s =
    find (matches (Fields [(''deleted'', Ne (JBool True)), (''id'', EqExists (JStr i))]))
      (collection s)"

definition mg_findAll' :: "QueryOptions option \<Rightarrow> 'a mongo_scheme \<Rightarrow> error + entity list" where
  "mg_findAll' queryOptions s =
    (case db_find (createFilter [] queryOptions) (collection s) of
       Inl err \<Rightarrow> Inl err
     | Inr records \<Rightarrow> Inr (sort_desc (\<lambda>d. (deleted d, dateCreated d)) records))"

definition mg_findBy :: "filter \<Rightarrow> QueryOptions option \<Rightarrow> 'a mongo_scheme \<Rightarrow> error + entity list" where
  "mg_findBy flt queryOptions s =
    (case db_find (createFilter flt queryOptions) (collection s) of
       Inl err \<Rightarrow> Inl err
     | Inr records \<Rightarrow> Inr (sort_desc dateCreated records))"

definition mg_findAll ::
  "filter option \<Rightarrow> QueryOptions option \<Rightarrow> 'a mongo_scheme \<Rightarrow> error + entity list" where
  "mg_findAll flt queryOptions s =
    (case flt of
       None \<Rightarrow> mg_findAll' queryOptions s
     | Some f \<Rightarrow> mg_findBy f queryOptions s)"






definition mg_findExpectedRecord ::
  "string \<Rightarrow> QueryOptions option \<Rightarrow> 'a mongo_scheme \<Rightarrow> error + entity" where
  "mg_findExpectedRecord i queryOptions s =
    (case mg_findById i queryOptions s of
       None \<Rightarrow> Inl RecordNotFoundException
     | Some record \<Rightarrow> Inr record)"

definition mg_performUpdate ::
  "entity \<Rightarrow> entity \<Rightarrow> QueryOptions option \<Rightarrow> bool \<Rightarrow> 'a mongo_scheme \<Rightarrow> (error + bool) \<times> 'a mongo_scheme" where
  "mg_performUpdate record payload queryOptions markDeleted s =
    (let updatedRecord = spread record payload;
         (stamped, s1) = updatePayload updatedRecord s;
         (final, s2) = (if markDeleted then markAsDeleted stamped s1 else (stamped, s1))
     in (case db_updateOne (oid record) final (collection s2) of
           Inl err \<Rightarrow> (Inl err, s2)
         | Inr docs \<Rightarrow> (Inr True, s2\<lparr>collection := docs\<rparr>)))"


definition mg_update ::
  "string \<Rightarrow> entity \<Rightarrow> QueryOptions option \<Rightarrow> 'a mongo_scheme \<Rightarrow> (error + bool) \<times> 'a mongo_scheme" where
  "mg_update i payload queryOptions s =
    (case mg_findExpectedRecord i queryOptions s of
       Inl err \<Rightarrow> (Inl err, s)
     | Inr record \<Rightarrow>
         if (case queryOptions of None \<Rightarrow> False | Some q \<Rightarrow> locking q = Some optimistic)
            \<and> version record \<noteq> version payload
         then (Inl OptimisticLockException, s)
         else mg_performUpdate record payload queryOptions False s)"


section \<open>The document store behind FirestoreCrudRepository\<close>

text \<open>
  The Firestore SDK is not part of the repository either. A collection is the list of its
  documents, each under its document id. The contract used:
  \<^item> \<open>where(k, '==', v)\<close> holds when the field is there and equal to \<open>v\<close>;
    \<open>where(k, '!=', v)\<close> when the field is there and different from \<open>v\<close>; \<open>and\<close>, \<open>or\<close>
    combine filters;
  \<^item> an \<open>orderBy\<close> on a field leaves out the documents without that field; the only
    order the modelled code asks for is \<open>deleted\<close> descending, then \<open>dateCreated\<close>
    descending; \<open>limit(n)\<close> keeps the first \<open>n\<close>;
  \<^item> \<open>setDoc\<close> writes the document under the id, \<open>updateDoc\<close> sets the given fields of
    an existing document and fails when there is none, \<open>deleteDoc\<close> removes the document;
    \<open>doc(collection, undefined)\<close> is rejected; a write batch applies its writes together
    on \<open>commit\<close>.
\<close>

datatype constraint =
    WhereEq string jsval
  | WhereNe string jsval
  | AndF "constraint list"
  | OrF "constraint list"

fun sat :: "constraint \<Rightarrow> entity \<Rightarrow> bool" where
  "sat (WhereEq k v) d = (field d k = Some v)"
| "sat (WhereNe k v) d = (case field d k of None \<Rightarrow> False | Some x \<Rightarrow> x \<noteq> v)"
| "sat (AndF cs) d = list_all (\<lambda>c. sat c d) cs"
| "sat (OrF cs) d = list_ex (\<lambda>c. sat c d) cs"

record fs_query =
  constraints :: "constraint list"
  ordered :: bool
  lim :: "nat option"

definition getDocs :: "fs_query \<Rightarrow> (string \<times> entity) list \<Rightarrow> entity list" where
  "getDocs q docs =
    (let found = [d \<leftarrow> map snd docs. list_all (\<lambda>c. sat c d) (constraints q)];
         sorted = (if ordered q
                   then sort_desc (\<lambda>d. (deleted d, dateCreated d))
                          [d \<leftarrow> found. deleted d \<noteq> None \<and> dateCreated d \<noteq> None]
                   else found)
     in (case lim q of None \<Rightarrow> sorted | Some n \<Rightarrow> take n sorted))"


definition updateDoc ::
  "string \<Rightarrow> entity \<Rightarrow> (string \<times> entity) list \<Rightarrow> error + (string \<times> entity) list" where
  "updateDoc key d docs =
    (case map_of docs key of
       None \<Rightarrow> Inl DriverError
     | Some old \<Rightarrow> Inr (AList.update key (spread old d) docs))"


section \<open>FirestoreCrudRepository (src/unnamed/part_004)\<close>

record firestore = world +
  documents :: "(string \<times> entity) list"


definition fs_findById :: "string \<Rightarrow> 'a firestore_scheme \<Rightarrow> entity option" where
  "fs_findById i s =
    (case getDocs \<lparr> constraints = [WhereEq ''id'' (JStr i), WhereNe ''deleted'' (JBool True)],
                    ordered = False, lim = None \<rparr> (documents s) of
       [] \<Rightarrow> None
     | d # ds \<Rightarrow> Some d)"

text \<open>
  \<open>createQuery\<close> followed by \<open>orderAndLimit\<close>. Every operator other than \<open>AND\<close> takes
  the \<open>or\<close> branch. \<open>if (queryOptions?.limit)\<close> skips a limit of \<open>0\<close>.
\<close>

definition createQuery :: "filter \<Rightarrow> QueryOptions option \<Rightarrow> fs_query" where
  "createQuery flt queryOptions =
    (let filterArray = map (\<lambda>(key, value). WhereEq key value) flt;
         deletionConstraint = WhereNe ''deleted'' (JBool True);
         operator = (case queryOptions of None \<Rightarrow> None | Some q \<Rightarrow> logicalOperator q);
         mainQuery = (if operator = None \<or> operator = Some AND
                      then deletionConstraint # filterArray
                      else [AndF [deletionConstraint, OrF filterArray]]);
         n = (case queryOptions of None \<Rightarrow> None | Some q \<Rightarrow> limit q)
     in \<lparr> constraints = mainQuery, ordered = True,
          lim = (case n of None \<Rightarrow> None | Some k \<Rightarrow> if k = 0 then None else Some k) \<rparr>)"

definition fs_findBy' :: "filter \<Rightarrow> QueryOptions option \<Rightarrow> 'a firestore_scheme \<Rightarrow> entity list" where
  "fs_findBy' flt queryOptions s = getDocs (createQuery flt queryOptions) (documents s)"

definition fs_findAll' :: "QueryOptions option \<Rightarrow> 'a firestore_scheme \<Rightarrow> entity list" where
  "fs_findAll' queryOptions s = fs_findBy' [] queryOptions s"

text \<open>With a filter, \<open>findAll\<close> sorts the snapshot again in the client (\<open>dateB - dateA\<close>).\<close>

definition fs_findAll :: "filter option \<Rightarrow> QueryOptions option \<Rightarrow> 'a firestore_scheme \<Rightarrow> entity list" where
  "fs_findAll flt queryOptions s =
    (case flt of
       None \<Rightarrow> fs_findAll' queryOptions s
     | Some f \<Rightarrow> sort_desc dateCreated (fs_findBy' f queryOptions s))"






definition fs_findExpectedRecord :: "string \<Rightarrow> 'a firestore_scheme \<Rightarrow> error + entity" where
  "fs_findExpectedRecord i s =
    (case fs_findById i s of
       None \<Rightarrow> Inl RecordNotFoundException
     | Some record \<Rightarrow> Inr record)"

text \<open>
  \<open>performUpdate(record, payload)\<close> stamps the record and then writes
  \<open>{ ...record, ...payload }\<close>. \<open>softDelete\<close> passes the record object itself as the
  payload, so there the stamping shows through both names: the payload argument of the
  model is \<open>None\<close> for that call.
\<close>

definition fs_performUpdate ::
  "entity \<Rightarrow> entity option \<Rightarrow> 'a firestore_scheme \<Rightarrow> (error + bool) \<times> 'a firestore_scheme" where
  "fs_performUpdate record payload s =
    (case id' record of
       None \<Rightarrow> (Inl DriverError, s)
     | Some key \<Rightarrow>
         (case updatePayload record s of
            (stamped, s1) \<Rightarrow>
              (case updateDoc key (spread stamped (case payload of None \<Rightarrow> stamped | Some p \<Rightarrow> p))
                      (documents s1) of
                 Inl err \<Rightarrow> (Inl err, s1)
               | Inr docs \<Rightarrow> (Inr True, s1\<lparr>documents := docs\<rparr>))))"



definition fs_update ::
  "string \<Rightarrow> entity \<Rightarrow> QueryOptions option \<Rightarrow> 'a firestore_scheme \<Rightarrow> (error + bool) \<times> 'a firestore_scheme" where
  "fs_update i payload queryOptions s =
    (case fs_findExpectedRecord i s of
       Inl err \<Rightarrow> (Inl err, s)
     | Inr record \<Rightarrow>
         if (case queryOptions of None \<Rightarrow> False | Some q \<Rightarrow> locking q = Some optimistic)
            \<and> version record \<noteq> version payload
         then (Inl OptimisticLockException, s)
         else fs_performUpdate record (Some payload) s)"


section \<open>The unified contract (interface CrudRepository)\<close>

text \<open>
  A repository is one of the three adapters with its state; the methods of the interface
  dispatch on it. The adapters without a failing read return their list as a success.
\<close>

datatype repository = LocalStorage local | Mongo mongo | Firestore firestore

fun findById :: "string \<Rightarrow> repository \<Rightarrow> entity option" where
  "findById i (LocalStorage s) = ls_findById i s"
| "findById i (Mongo s) = mg_findById i None s"
| "findById i (Firestore s) = fs_findById i s"

fun findAll :: "filter option \<Rightarrow> QueryOptions option \<Rightarrow> repository \<Rightarrow> error + entity list" where
  "findAll flt q (LocalStorage s) = Inr (ls_findAll flt q s)"
| "findAll flt q (Mongo s) = mg_findAll flt q s"
| "findAll flt q (Firestore s) = Inr (fs_findAll flt q s)"



fun update :: "string \<Rightarrow> entity \<Rightarrow> QueryOptions option \<Rightarrow> repository \<Rightarrow> (error + bool) \<times> repository" where
  "update i payload q (LocalStorage s) =
    (case ls_update i payload q s of (res, s') \<Rightarrow> (res, LocalStorage s'))"
| "update i payload q (Mongo s) =
    (case mg_update i payload q s of (res, s') \<Rightarrow> (res, Mongo s'))"
| "update i payload q (Firestore s) =
    (case fs_update i payload q s of (res, s') \<Rightarrow> (res, Firestore s'))"


text \<open>What the backend holds, soft-deleted records included, and the calls made so far.\<close>

fun held :: "repository \<Rightarrow> entity list" where
  "held (LocalStorage s) = (case storage s of None \<Rightarrow> [] | Some object \<Rightarrow> map snd object)"
| "held (Mongo s) = collection s"
| "held (Firestore s) = map snd (documents s)"




fun isEmpty_id :: "repository \<Rightarrow> string option \<Rightarrow> error + bool" where
  "isEmpty_id (LocalStorage s) = isEmpty_string s"
| "isEmpty_id (Mongo s) = isEmpty_string s"
| "isEmpty_id (Firestore s) = isEmpty_string s"


text \<open>Every record held went through \<open>updatePayload\<close>: it has \<open>deleted\<close> and \<open>dateCreated\<close>.\<close>

definition stamped :: "repository \<Rightarrow> bool" where
  "stamped s = list_all (\<lambda>d. deleted d \<noteq> None \<and> dateCreated d \<noteq> None) (held s)"

section \<open>MongoCrudRepository.executeTransaction\<close>

text \<open>
  The session and the executor are the caller's and the driver's. One run is described by
  what each of them does in it: whether \<open>startSession\<close>, \<open>commitTransaction\<close>,
  \<open>abortTransaction\<close> and \<open>endSession\<close> throw, and what the executor returns or throws
  (\<open>None\<close> when the execution object has no \<open>mongoExecutor\<close>). The result is the outcome
  of the call and the driver calls made, in order.
\<close>

datatype call =
  StartSession | StartTransaction | Executor | CommitTransaction | AbortTransaction | EndSession

record 'r run =
  startSession :: "error option"
  mongoExecutor :: "(error + 'r) option"
  commitTransaction :: "error option"
  abortTransaction :: "error option"
  endSession :: "error option"

definition catch_block :: "'r run \<Rightarrow> error \<Rightarrow> call list \<Rightarrow> (error + 'r) \<times> call list" where
  "catch_block r err calls =
    (case abortTransaction r of
       None \<Rightarrow> (Inl err, calls @ [AbortTransaction])
     | Some abortError \<Rightarrow> (Inl abortError, calls @ [AbortTransaction]))"

definition try_block :: "'r run \<Rightarrow> error + 'r \<Rightarrow> (error + 'r) \<times> call list" where
  "try_block r body =
    (case body of
       Inl err \<Rightarrow> catch_block r err [Executor]
     | Inr result \<Rightarrow>
         (case commitTransaction r of
            None \<Rightarrow> (Inr result, [Executor, CommitTransaction])
          | Some commitError \<Rightarrow> catch_block r commitError [Executor, CommitTransaction]))"

definition executeTransaction :: "'r run \<Rightarrow> (error + 'r) \<times> call list" where
  "executeTransaction r =
    (case startSession r of
       Some err \<Rightarrow> (Inl err, [StartSession])
     | None \<Rightarrow>
         (case mongoExecutor r of
            None \<Rightarrow> (Inl InternalServerException, [StartSession, StartTransaction])
          | Some body \<Rightarrow>
              (case try_block r body of
                 (outcome, calls) \<Rightarrow>
                   (case endSession r of
                      None \<Rightarrow> outcome
                    | Some endError \<Rightarrow> Inl endError,
                    [StartSession, StartTransaction] @ calls @ [EndSession]))))"

section \<open>Observations used in the statements\<close>









section \<open>Concrete states for the examples\<close>

text \<open>
  A runtime whose clock advances by one millisecond per reading and whose generator gives
  \<open>g\<close>, \<open>gx\<close>, \<open>gxx\<close>, ... Its JSON parser rejects what it is asked about; the only text
  it is asked about below is the single brace \<open>{\<close>, which is not JSON.
\<close>

definition alice :: entity where
  "alice = \<lparr> id' = Some ''k1'', oid = Some ''k1'', deleted = Some False,
             dateCreated = Some 5000, dateUpdated = Some 5000, dateDeleted = None,
             version = Some 1,
             attrs = [(''name'', JStr ''Alice''), (''email'', JStr ''a@x.org'')] \<rparr>"

definition bob :: entity where
  "bob = \<lparr> id' = Some ''k2'', oid = Some ''k2'', deleted = Some False,
           dateCreated = Some 6000, dateUpdated = Some 6000, dateDeleted = None,
           version = Some 1,
           attrs = [(''name'', JStr ''Bob''), (''email'', JStr ''a@x.org'')] \<rparr>"

definition fresh :: entity where
  "fresh = \<lparr> id' = None, oid = None, deleted = None,
             dateCreated = None, dateUpdated = None, dateDeleted = None,
             version = None,
             attrs = [(''name'', JStr ''Carol''), (''email'', JStr ''c@x.org'')] \<rparr>"

definition localRepo :: repository where
  "localRepo = LocalStorage
     \<lparr> clock = (\<lambda>n. 1000 + int n), ticks = 0,
       idgen = (\<lambda>n. ''g'' @ replicate n CHR ''x''), drawn = 0,
       JSON_parses = (\<lambda>s. False),
       storage = Some [(''k1:false'', alice), (''k2:false'', bob)] \<rparr>"

definition mongoRepo :: repository where
  "mongoRepo = Mongo
     \<lparr> clock = (\<lambda>n. 1000 + int n), ticks = 0,
       idgen = (\<lambda>n. ''g'' @ replicate n CHR ''x''), drawn = 0,
       JSON_parses = (\<lambda>s. False),
       collection = [alice, bob] \<rparr>"

definition fireRepo :: repository where
  "fireRepo = Firestore
     \<lparr> clock = (\<lambda>n. 1000 + int n), ticks = 0,
       idgen = (\<lambda>n. ''g'' @ replicate n CHR ''x''), drawn = 0,
       JSON_parses = (\<lambda>s. False),
       documents = [(''k1'', alice), (''k2'', bob)] \<rparr>"

definition lockingOptions :: QueryOptions where
  "lockingOptions =
    \<lparr> logicalOperator = None, deletionOptions = None, limit = None, locking = Some optimistic \<rparr>"





section \<open>Lemmas about stamping\<close>






lemma isEmpty_string_ticks [simp]:
  "isEmpty_string (w\<lparr>ticks := n\<rparr>) x = isEmpty_string w x"
  by (cases x) (simp_all add: isEmpty_string_def)

lemmas eval_defs =
  isEmpty_string_def trim_def white_space_def isAnyEmpty_def isEmpty_number_def getNextVersion_def
  updatePayload_def markAsDeleted_def Date_now_def generate_def Let_def field_def spread_def orElse_def
  template_def getActiveKey_def getInactiveKey_def

section \<open>Optimistic locking\<close>

text \<open>
  C4. For a stored record at version \<open>v\<close>, \<open>update(id, payload, {locking: "optimistic"})\<close>
  with a payload version other than \<open>v\<close> fails with the optimistic-lock error and leaves
  the whole state, the stored record included, as it was. This holds on every adapter.
\<close>

theorem C4_optimistic_lock:
  assumes "findById k s = Some r" and "version r = Some v" and "version payload \<noteq> Some v"
    and "locking q = Some optimistic"
  shows "update k payload (Some q) s = (Inl OptimisticLockException, s)"
proof (cases s)
  case (LocalStorage l)
  with assms show ?thesis
    by (auto simp: ls_update_def ls_findExpectedRecord_def ls_findById_def split: option.splits)
next
  case (Mongo m)
  with assms show ?thesis
    by (auto simp: mg_update_def mg_findExpectedRecord_def mg_findById_def split: option.splits)
next
  case (Firestore f)
  with assms show ?thesis
    by (auto simp: fs_update_def fs_findExpectedRecord_def split: option.splits)
qed

theorem C4_optimistic_lock_witness:
  "findById ''k1'' fireRepo = Some alice \<and> version alice = Some 1 \<and>
   version (fresh\<lparr>version := Some 6\<rparr>) \<noteq> Some 1 \<and> locking lockingOptions = Some optimistic \<and>
   update ''k1'' (fresh\<lparr>version := Some 6\<rparr>) (Some lockingOptions) fireRepo
     = (Inl OptimisticLockException, fireRepo)"
proof -
  have a: "findById ''k1'' fireRepo = Some alice"
    by (simp add: fireRepo_def fs_findById_def getDocs_def alice_def bob_def field_def)
  have b: "version alice = Some 1" by (simp add: alice_def)
  have c: "version (fresh\<lparr>version := Some 6\<rparr>) \<noteq> Some 1" by simp
  have d: "locking lockingOptions = Some optimistic" by (simp add: lockingOptions_def)
  from C4_optimistic_lock [OF a b c d] a b c d show ?thesis by simp
qed

section \<open>Where create stamps the payload\<close>






section \<open>The duplicate guard of createAll\<close>

lemma entitiesWithIds_Inr:
  "entitiesWithIds w ps = Inr ws \<Longrightarrow>
     ws = [e \<leftarrow> ps. isEmpty_string w (id' e) = Inr False]"
  by (induction ps arbitrary: ws) (auto split: sum.splits)






















lemma db_insertMany_no_invalid': "db_insertMany ds docs = (Inl InvalidRequestException, docs') \<Longrightarrow> False"
  by (induction ds arbitrary: docs docs') (auto simp: db_save_def split: prod.splits sum.splits if_splits)

lemma db_insertMany_no_invalid: "fst (db_insertMany ds docs) \<noteq> Inl InvalidRequestException"
  using db_insertMany_no_invalid' [of ds docs] by (cases "db_insertMany ds docs") auto



lemma isEmpty_id_cases:
  "isEmpty_id s x = (case s of LocalStorage l \<Rightarrow> isEmpty_string l x | Mongo m \<Rightarrow> isEmpty_string m x
                      | Firestore f \<Rightarrow> isEmpty_string f x)"
  by (cases s) simp_all




section \<open>The duplicate check of create\<close>



lemma fs_findById_ticks [simp]: "fs_findById k (s\<lparr>ticks := n\<rparr>) = fs_findById k s"
  by (simp add: fs_findById_def)








section \<open>findAll without a filter\<close>

text \<open>
  C2. The local key-value adapter gives \<open>findAll\<close> the default filter \<open>{}\<close> and collects
  matches per key of the filter, so without a filter it returns the empty list whatever
  it holds, where the other two adapters return every non-deleted record, newest first.
\<close>

theorem C2_findAll_without_filter:
  "findAll None None localRepo = Inr [] \<and> held localRepo = [alice, bob] \<and>
   findAll None None mongoRepo = Inr [bob, alice] \<and>
   findAll None None fireRepo = Inr [bob, alice]"
  by (auto simp add: localRepo_def mongoRepo_def fireRepo_def ls_findAll_def mg_findAll_def mg_findAll'_def
        createFilter_def createFilterOnly_def db_find_def sort_desc_def fs_findAll_def fs_findAll'_def
        fs_findBy'_def createQuery_def getDocs_def alice_def bob_def field_def Let_def)

lemma ls_findAll_without_filter: "ls_findAll None q s = []"
  by (simp add: ls_findAll_def split: option.splits)

section \<open>Transactions\<close>



text \<open>
  Two paths outside the claim: when the abort itself throws, its error replaces the
  executor's; and a call without executor fails after the transaction was started and
  before the \<open>try\<close>, so that run never ends its session.
\<close>

lemma executeTransaction_abort_fails:
  "startSession r = None \<Longrightarrow> mongoExecutor r = Some (Inl err) \<Longrightarrow>
   abortTransaction r = Some abortError \<Longrightarrow> endSession r = None \<Longrightarrow>
   fst (executeTransaction r) = Inl abortError"
  by (simp add: executeTransaction_def try_block_def catch_block_def)

lemma executeTransaction_without_executor:
  "startSession r = None \<Longrightarrow> mongoExecutor r = None \<Longrightarrow>
   executeTransaction r = (Inl InternalServerException, [StartSession, StartTransaction])"
  by (simp add: executeTransaction_def)

section \<open>Lookups on a keyed store\<close>

lemma active_inj [simp]: "getActiveKey a = getActiveKey b \<longleftrightarrow> a = b"
  by (simp add: getActiveKey_def)

lemma inactive_inj [simp]: "getInactiveKey a = getInactiveKey b \<longleftrightarrow> a = b"
  by (simp add: getInactiveKey_def)

lemma active_neq_inactive [simp]: "getActiveKey a \<noteq> getInactiveKey b"
proof
  assume "getActiveKey a = getInactiveKey b"
  then have "rev (a @ '':false'') = rev (b @ '':true'')" by (simp add: getActiveKey_def getInactiveKey_def)
  then have "take 5 (rev (a @ '':false'')) = take 5 (rev (b @ '':true''))" by simp
  then show False by simp
qed

lemma inactive_neq_active [simp]: "getInactiveKey b \<noteq> getActiveKey a"
  using active_neq_inactive [of a b] by metis






section \<open>What update and remove leave behind: local key-value adapter\<close>







section \<open>What update and remove leave behind: document-database adapter\<close>
















section \<open>What update and remove leave behind: cloud-document adapter\<close>








section \<open>What create returns and stores\<close>







section \<open>What is left of a removed record\<close>





section \<open>The three adapters behind one interface\<close>





section \<open>Versions\<close>



text \<open>
  On the cloud-document adapter the record is stamped first and the payload is written
  over it, so there a payload that carries the stored version, as optimistic locking
  requires, leaves the version where it was; the other two adapters step it.
\<close>

lemma fs_update_keeps_payload_version:
  "fst (update ''k1'' (fresh\<lparr>version := Some 1\<rparr>) (Some lockingOptions) fireRepo) = Inr True \<and>
   map_option version
     (findById ''k1'' (snd (update ''k1'' (fresh\<lparr>version := Some 1\<rparr>) (Some lockingOptions) fireRepo)))
     = Some (Some 1) \<and>
   map_option version
     (findById ''k1'' (snd (update ''k1'' (fresh\<lparr>version := Some 1\<rparr>) (Some lockingOptions) mongoRepo)))
     = Some (Some 2)"
  by (simp add: fireRepo_def mongoRepo_def alice_def bob_def fresh_def lockingOptions_def
        fs_findById_def fs_update_def fs_findExpectedRecord_def fs_performUpdate_def
        fs_findBy'_def createQuery_def getDocs_def updateDoc_def
        mg_findById_def mg_update_def mg_findExpectedRecord_def mg_performUpdate_def
        split_beta eval_defs)


section \<open>Timestamps\<close>




section \<open>Soft and hard removal\<close>



section \<open>findAll with the operator OR\<close>

lemma mset_sort_desc [simp]: "mset (sort_desc f xs) = mset xs"
  by (simp add: sort_desc_def)

lemma set_sort_desc [simp]: "set (sort_desc f xs) = set xs"
  by (simp add: sort_desc_def)











end
